theory Spec2Isabelle
  imports Main "HOL-Library.Word"
begin

section \<open>The audio decode worker: \<^verbatim>\<open>synthesizer/miniaudio_worker.py\<close>\<close>

text \<open>
  An item on either queue of the worker is the Python tuple
  \<^verbatim>\<open>Tuple[Optional[bytes], bool]\<close>: a chunk that may be \<^verbatim>\<open>None\<close>, and the
  \<^verbatim>\<open>is_last\<close> flag.
\<close>

type_synonym bytes = "8 word list"

type_synonym chunk_item = "bytes option \<times> bool"

text \<open>
  \<^verbatim>\<open>SynthesizerConfig\<close> is declared outside the two source files; the worker reads
  its fields \<^verbatim>\<open>sampling_rate\<close> and \<^verbatim>\<open>audio_encoding\<close> only. The encoding
  enumeration stays a type parameter.
\<close>

record 'enc synthesizer_config =
  sampling_rate :: int
  audio_encoding :: 'enc

text \<open>
  The state the worker thread acts on: the thread side of the two janus queues, oldest
  item first, and the lines handed to \<^verbatim>\<open>logger.exception\<close>.
\<close>

record worker =
  input_janus_queue :: "chunk_item list"
  output_janus_queue :: "chunk_item list"
  logged :: "string list"

definition put :: "worker \<Rightarrow> chunk_item \<Rightarrow> worker" where
  "put w item = w\<lparr>output_janus_queue := output_janus_queue w @ [item]\<rparr>"

definition log_exception :: "worker \<Rightarrow> string \<Rightarrow> worker" where
  "log_exception w msg = w\<lparr>logged := logged w @ [msg]\<rparr>"

text \<open>
  One pass through the body of \<^verbatim>\<open>while True\<close> in \<^verbatim>\<open>_run_loop\<close>, for the item
  that \<^verbatim>\<open>sync_q.get()\<close> returned. The helpers \<^verbatim>\<open>decode_mp3\<close> and
  \<^verbatim>\<open>convert_wav\<close> live outside the two source files and are parameters:
  \<open>decode_mp3 b = Inl msg\<close> stands for \<^verbatim>\<open>miniaudio.DecodeError\<close> raised with
  \<^verbatim>\<open>str(e) = msg\<close>, the one exception the loop catches, and \<open>Inr pcm\<close> for a
  returned buffer.
\<close>

definition loop_body ::
  "(bytes \<Rightarrow> string + bytes) \<Rightarrow> (bytes \<Rightarrow> int \<Rightarrow> 'enc \<Rightarrow> bytes) \<Rightarrow>
   'enc synthesizer_config \<Rightarrow> chunk_item \<Rightarrow> worker \<Rightarrow> worker" where
  "loop_body decode_mp3 convert_wav synthesizer_config item w =
     (case item of (mp3_chunk, is_last) \<Rightarrow>
        (case mp3_chunk of
           None \<Rightarrow> put w (None, True)
         | Some chunk \<Rightarrow>
            (case decode_mp3 chunk of
               Inl e \<Rightarrow>
                 put (log_exception w (''MiniaudioWorker error: '' @ e)) (None, True)
             | Inr output_bytes_io \<Rightarrow>
                 put w (Some (convert_wav output_bytes_io
                                (sampling_rate synthesizer_config)
                                (audio_encoding synthesizer_config)),
                        is_last))))"

text \<open>
  \<^verbatim>\<open>_run_loop\<close> never returns: with nothing to read it waits inside
  \<^verbatim>\<open>sync_q.get()\<close>. \<open>run_loop\<close> takes the items already written to the input queue,
  one per pass and oldest first, and gives the state in which the thread waits again.
\<close>

function run_loop ::
  "(bytes \<Rightarrow> string + bytes) \<Rightarrow> (bytes \<Rightarrow> int \<Rightarrow> 'enc \<Rightarrow> bytes) \<Rightarrow>
   'enc synthesizer_config \<Rightarrow> worker \<Rightarrow> worker" where
  "run_loop decode_mp3 convert_wav synthesizer_config w =
     (case input_janus_queue w of
        [] \<Rightarrow> w
      | item # rest \<Rightarrow>
          run_loop decode_mp3 convert_wav synthesizer_config
            (loop_body decode_mp3 convert_wav synthesizer_config item
               (w\<lparr>input_janus_queue := rest\<rparr>)))"
  by pat_completeness auto
termination
  by (relation "measure (\<lambda>(d, c, cfg, w). length (input_janus_queue w))")
     (auto simp: loop_body_def put_def log_exception_def
           split: prod.splits option.splits sum.splits)

declare run_loop.simps [simp del]

text \<open>A worker that has just been started on the given input: nothing written, nothing logged.\<close>

definition started :: "chunk_item list \<Rightarrow> worker" where
  "started items = \<lparr>input_janus_queue = items, output_janus_queue = [], logged = []\<rparr>"

text \<open>
  Stand-ins for the two helpers, used where a property is evaluated on concrete bytes: the
  decoder accepts a chunk that opens with the frame-sync byte \<open>0xFF\<close> and raises
  \<^verbatim>\<open>DecodeError\<close> on any other, the converter writes the low byte of the sample
  rate in front of the samples.
\<close>

definition fake_decode_mp3 :: "bytes \<Rightarrow> string + bytes" where
  "fake_decode_mp3 chunk =
     (case chunk of
        [] \<Rightarrow> Inl ''no frame''
      | b # samples \<Rightarrow> if b = 0xFF then Inr samples else Inl ''bad sync'')"

datatype fake_encoding = Linear16 | Mulaw

definition fake_convert_wav :: "bytes \<Rightarrow> int \<Rightarrow> fake_encoding \<Rightarrow> bytes" where
  "fake_convert_wav pcm rate encoding = word_of_int rate # pcm"

definition fake_config :: "fake_encoding synthesizer_config" where
  "fake_config = \<lparr>sampling_rate = 8000, audio_encoding = Linear16\<rparr>"


section \<open>The llama.cpp agent: \<^verbatim>\<open>agent/llamacpp_agent.py\<close>\<close>

subsection \<open>Values\<close>

text \<open>
  Exceptions that reach a caller. \<open>ValueError\<close> is the one \<^verbatim>\<open>raise\<close> of
  \<^verbatim>\<open>__init__\<close>, with its message. \<open>TypeError\<close> is what a call raises when a keyword
  is given twice, and carries that keyword. \<open>LibraryError\<close> is an exception raised inside
  a langchain constructor that \<^verbatim>\<open>__init__\<close> calls, and \<open>BackendFailure\<close> is
  whatever the inference backend raises inside \<^verbatim>\<open>predict\<close>; both carry the message.
\<close>

datatype error =
    ValueError string
  | TypeError string
  | LibraryError string
  | BackendFailure string

datatype message = SystemMessage string | HumanMessage string | AIMessage string

datatype message_prompt = MessagesPlaceholder string | HumanMessagePromptTemplate string

text \<open>
  A prompt object: the history-flattening subclass defined in the file, a plain
  \<^verbatim>\<open>PromptTemplate\<close> (input variables and template text) or a chat prompt built from
  message templates.
\<close>

datatype prompt =
    FormatHistoryPromptTemplate "string list" string
  | PromptTemplate "string list" string
  | ChatPromptTemplate "message_prompt list"

text \<open>
  What \<^verbatim>\<open>agent_config.prompt_template\<close> can hold: \<^verbatim>\<open>None\<close>, a value whose type is
  exactly \<^verbatim>\<open>str\<close>, or a prompt object (which is truthy).
\<close>

datatype template_value = NoneV | StrV string | TemplateV prompt

record agent_config =
  prompt_template :: template_value
  prompt_preamble :: string
  llamacpp_kwargs :: "(string \<times> string) list"

definition ALPACA_TEMPLATE_WITH_HISTORY :: string where
  "ALPACA_TEMPLATE_WITH_HISTORY =
     ''### Instruction:'' @ [CHR 0x0A] @
     ''Your previous conversation history:'' @ [CHR 0x0A] @
     ''{history}'' @ [CHR 0x0A] @
     [CHR 0x0A] @
     ''Current instruction/message to respond to: {input}'' @ [CHR 0x0A] @
     ''### Response:''"

datatype llm_result = LLMResult "string list"

text \<open>
  Modelled from the spec: the declaration of \<^verbatim>\<open>CallbackOutput\<close> is imported from
  \<^verbatim>\<open>vocode.streaming.agent.utils\<close>, outside the two source files. The spec gives it as
  \<^verbatim>\<open>{token: optional string, finish: bool, result: optional aggregate}\<close>; a field the
  constructor call leaves out is absent, and \<^verbatim>\<open>finish\<close> is false.
\<close>

record callback_output =
  token :: "string option"
  finish :: bool
  response :: "llm_result option"

subsection \<open>Queues as objects in a store\<close>

text \<open>
  An \<^verbatim>\<open>asyncio.Queue\<close> is an object that the agent, the callback handler and the stream
  reach through references. The store maps the address of each queue made so far to its
  items, oldest first; \<open>next_id\<close> is the address the next queue gets.
\<close>

record store =
  next_id :: nat
  queues :: "nat \<rightharpoonup> callback_output list"

definition Queue :: "store \<Rightarrow> nat \<times> store" where
  "Queue st =
     (next_id st,
      st\<lparr>next_id := Suc (next_id st), queues := (queues st)(next_id st \<mapsto> [])\<rparr>)"

definition items_of :: "store \<Rightarrow> nat \<Rightarrow> callback_output list" where
  "items_of st q = (case queues st q of None \<Rightarrow> [] | Some xs \<Rightarrow> xs)"

text \<open>The queue is unbounded, so \<^verbatim>\<open>put_nowait\<close> always appends.\<close>

definition put_nowait :: "store \<Rightarrow> nat \<Rightarrow> callback_output \<Rightarrow> store" where
  "put_nowait st q x = st\<lparr>queues := (queues st)(q \<mapsto> items_of st q @ [x])\<rparr>"

subsection \<open>The callback handler\<close>

record CustomStreamingCallbackHandler =
  output_queue :: nat

definition on_llm_new_token ::
  "CustomStreamingCallbackHandler \<Rightarrow> string \<Rightarrow> store \<Rightarrow> store" where
  "on_llm_new_token self tok st =
     put_nowait st (output_queue self) \<lparr>token = Some tok, finish = False, response = None\<rparr>"

definition on_llm_end ::
  "CustomStreamingCallbackHandler \<Rightarrow> llm_result \<Rightarrow> store \<Rightarrow> store" where
  "on_llm_end self res st =
     put_nowait st (output_queue self) \<lparr>token = None, finish = True, response = Some res\<rparr>"

text \<open>
  The backend reports progress by calling every handler of its callback manager: once per
  generated token, and once when generation has ended.
\<close>

datatype llm_event = NewToken string | LlmEnd llm_result

fun fire :: "CustomStreamingCallbackHandler list \<Rightarrow> store \<Rightarrow> llm_event \<Rightarrow> store" where
  "fire handlers st (NewToken tok) = fold (\<lambda>h s. on_llm_new_token h tok s) handlers st"
| "fire handlers st (LlmEnd res) = fold (\<lambda>h s. on_llm_end h res s) handlers st"

subsection \<open>The agent\<close>

record LlamaCpp =
  callback_manager :: "CustomStreamingCallbackHandler list"
  kwargs :: "(string \<times> string) list"

record ConversationChain =
  chain_memory :: "message list"
  chain_prompt :: prompt
  chain_llm :: LlamaCpp

record ThreadPoolExecutor =
  max_workers :: nat

text \<open>
  The attributes of the agent. \<open>debug_log\<close> holds the lines handed to
  \<^verbatim>\<open>self.logger.debug\<close>.
\<close>

record LlamacppAgent =
  agent_config :: agent_config
  prompt :: prompt
  callback_queue :: nat
  llm :: LlamaCpp
  memory :: "message list"
  thread_pool_executor :: ThreadPoolExecutor
  debug_log :: "string list"

text \<open>
  \<^verbatim>\<open>self.conversation\<close> holds the same memory, prompt and model objects as the agent's
  own attributes.
\<close>

definition conversation :: "LlamacppAgent \<Rightarrow> ConversationChain" where
  "conversation self =
     \<lparr>chain_memory = memory self, chain_prompt = prompt self, chain_llm = llm self\<rparr>"

text \<open>
  \<^verbatim>\<open>__init__\<close>. Its own \<^verbatim>\<open>raise\<close> is the one for a string other than
  \<^verbatim>\<open>"alpaca"\<close>, and comes before the queue and the model are made. Two later
  statements can raise as well. The call
  \<^verbatim>\<open>LlamaCpp(callback_manager=callback_manager, **agent_config.llamacpp_kwargs)\<close>
  is a \<^verbatim>\<open>TypeError\<close> when the keyword arguments name \<^verbatim>\<open>callback_manager\<close> again,
  and otherwise runs the library's constructor, which validates the arguments and loads
  the model. The call \<^verbatim>\<open>ConversationChain(memory=..., prompt=..., llm=...)\<close> runs the
  library's validation of the prompt against the memory. The two library constructors
  are parameters: given the object to be made, each says whether it raises, and with what
  message.
\<close>

definition init ::
  "(LlamaCpp \<Rightarrow> string option) \<Rightarrow> (ConversationChain \<Rightarrow> string option) \<Rightarrow>
   agent_config \<Rightarrow> store \<Rightarrow> error + (LlamacppAgent \<times> store)" where
  "init LlamaCpp_raises ConversationChain_raises cfg st =
     (case
        (case prompt_template cfg of
           StrV s \<Rightarrow>
             if s = ''alpaca''
             then Inr (FormatHistoryPromptTemplate [''history'', ''input'']
                         ALPACA_TEMPLATE_WITH_HISTORY)
             else Inl (ValueError (''Unknown prompt template '' @ s))
         | TemplateV p \<Rightarrow> Inr p
         | NoneV \<Rightarrow>
             Inr (ChatPromptTemplate
                    [MessagesPlaceholder ''history'', HumanMessagePromptTemplate ''{input}'']))
      of
        Inl e \<Rightarrow> Inl e
      | Inr p \<Rightarrow>
          (case Queue st of (q, st') \<Rightarrow>
             if map_of (llamacpp_kwargs cfg) ''callback_manager'' \<noteq> None
             then Inl (TypeError ''callback_manager'')
             else
               (case LlamaCpp_raises
                       \<lparr>callback_manager = [\<lparr>output_queue = q\<rparr>],
                        kwargs = llamacpp_kwargs cfg\<rparr> of
                  Some msg \<Rightarrow> Inl (LibraryError msg)
                | None \<Rightarrow>
                   (case ConversationChain_raises
                           \<lparr>chain_memory = [] @ [SystemMessage (prompt_preamble cfg)],
                            chain_prompt = p,
                            chain_llm = \<lparr>callback_manager = [\<lparr>output_queue = q\<rparr>],
                                         kwargs = llamacpp_kwargs cfg\<rparr>\<rparr> of
                      Some msg \<Rightarrow> Inl (LibraryError msg)
                    | None \<Rightarrow>
                       Inr (\<lparr>agent_config = cfg,
                             prompt = p,
                             callback_queue = q,
                             llm = \<lparr>callback_manager = [\<lparr>output_queue = q\<rparr>],
                                    kwargs = llamacpp_kwargs cfg\<rparr>,
                             memory = [] @ [SystemMessage (prompt_preamble cfg)],
                             thread_pool_executor = \<lparr>max_workers = 1\<rparr>,
                             debug_log = []\<rparr>,
                            st')))))"

subsection \<open>The blocking call and the executor\<close>

text \<open>
  \<^verbatim>\<open>ConversationChain.predict\<close> belongs to the langchain library and is a parameter. One
  call of it is described by the callbacks the model fires while it runs, in order, by
  what the call does in the end (raise, or return the text), and by the memory it leaves.
\<close>

record prediction =
  callbacks :: "llm_event list"
  outcome :: "error + string"
  memory_after :: "message list"

type_synonym predictor = "ConversationChain \<Rightarrow> string \<Rightarrow> prediction"

text \<open>
  A future of the executor, once its task is over: it holds the exception or the result.
  Only \<^verbatim>\<open>await\<close> hands either of them to the coroutine that owns the future.
\<close>

datatype 'a future = Future "error + 'a"

fun await :: "'a future \<Rightarrow> error + 'a" where
  "await (Future r) = r"

text \<open>
  \<^verbatim>\<open>run_in_executor(self.thread_pool_executor, lambda input: ..., human_input)\<close>: the
  task runs on the executor's thread, where the handlers write to their queue and the
  chain updates the memory; an exception of the task ends the task, is kept in the future
  and leaves the executor's thread running.
\<close>

definition run_in_executor ::
  "predictor \<Rightarrow> LlamacppAgent \<Rightarrow> store \<Rightarrow> string \<Rightarrow>
   string future \<times> LlamacppAgent \<times> store" where
  "run_in_executor predict self st human_input =
     (let p = predict (conversation self) human_input
      in (Future (outcome p),
          self\<lparr>memory := memory_after p\<rparr>,
          foldl (fire (callback_manager (llm self))) st (callbacks p)))"

definition respond ::
  "predictor \<Rightarrow> LlamacppAgent \<Rightarrow> store \<Rightarrow> string \<Rightarrow>
   (error + string \<times> bool) \<times> LlamacppAgent \<times> store" where
  "respond predict self st human_input =
     (case run_in_executor predict self st human_input of (fut, self', st') \<Rightarrow>
        (case await fut of
           Inl e \<Rightarrow> (Inl e, self', st')
         | Inr text \<Rightarrow>
             (Inr (text, False),
              self'\<lparr>debug_log := debug_log self' @ [''LLM response: '' @ text]\<rparr>,
              st')))"

subsection \<open>The token stream\<close>

text \<open>
  How the inner generator \<^verbatim>\<open>stream()\<close> leaves its loop: through \<^verbatim>\<open>break\<close>, or not at
  all, suspended in \<^verbatim>\<open>await self.callback_queue.get()\<close> on a queue that stays empty.
\<close>

datatype stream_end = Stopped | Awaiting

text \<open>
  \<^verbatim>\<open>stream()\<close> on the items of the queue, oldest first: the items it yields, the items it
  leaves in the queue, and how it ends.
\<close>

fun stream ::
  "callback_output list \<Rightarrow> callback_output list \<times> callback_output list \<times> stream_end" where
  "stream [] = ([], [], Awaiting)"
| "stream (callback_output # q) =
     (if finish callback_output then ([], q, Stopped)
      else (case stream q of (ys, rest, e) \<Rightarrow> (callback_output # ys, rest, e)))"

text \<open>
  Modelled from the spec: \<^verbatim>\<open>stream_response_async\<close> is imported from
  \<^verbatim>\<open>vocode.streaming.agent.utils\<close>, outside the two source files. The spec says of the
  consumer built on it: on each \<^verbatim>\<open>CallbackOutput\<close> with a token, yields the token, in
  generation order, and yields nothing else.
\<close>

definition stream_response_async ::
  "'a list \<Rightarrow> ('a \<Rightarrow> string option) \<Rightarrow> bool \<Rightarrow> string list" where
  "stream_response_async gen get_text openai = List.map_filter get_text gen"

text \<open>
  What the caller of \<^verbatim>\<open>generate_response\<close> observes: the queue its stream reads, the
  messages it is handed, and whether the iteration ends.
\<close>

record generation =
  channel :: nat
  yielded :: "string list"
  ending :: stream_end

text \<open>
  \<^verbatim>\<open>generate_response\<close>. The future of \<^verbatim>\<open>run_in_executor\<close> is dropped. The stream
  reads \<^verbatim>\<open>self.callback_queue\<close> while the task runs; it is the queue's reader, so it
  sees the items that were in the queue already and then those the task writes, in that
  order, however the two threads interleave. The model lets the task finish and reads then.
\<close>

definition generate_response ::
  "predictor \<Rightarrow> LlamacppAgent \<Rightarrow> store \<Rightarrow> string \<Rightarrow>
   generation \<times> LlamacppAgent \<times> store" where
  "generate_response predict self st human_input =
     (case run_in_executor predict self st human_input of (fut, self', st') \<Rightarrow>
        (case stream (items_of st' (callback_queue self')) of (gen, rest, e) \<Rightarrow>
           (\<lparr>channel = callback_queue self',
             yielded = stream_response_async gen token False,
             ending = e\<rparr>,
            self',
            st'\<lparr>queues := (queues st')(callback_queue self' \<mapsto> rest)\<rparr>)))"

text \<open>
  Stand-ins for the backend, used where a property is evaluated on a concrete call: one
  that streams two tokens, ends and returns their text, and one that fails after its first
  token.
\<close>

definition fake_predict :: predictor where
  "fake_predict chain human_input =
     \<lparr>callbacks = [NewToken ''Hel'', NewToken ''lo'', LlmEnd (LLMResult [''Hello''])],
      outcome = Inr ''Hello'',
      memory_after = chain_memory chain @ [HumanMessage human_input, AIMessage ''Hello'']\<rparr>"

definition failing_predict :: predictor where
  "failing_predict chain human_input =
     \<lparr>callbacks = [NewToken ''Hel''],
      outcome = Inl (BackendFailure ''llama_decode failed''),
      memory_after = chain_memory chain\<rparr>"

definition empty_store :: store where
  "empty_store = \<lparr>next_id = 0, queues = Map.empty\<rparr>"

definition fake_agent_config :: agent_config where
  "fake_agent_config =
     \<lparr>prompt_template = StrV ''alpaca'',
      prompt_preamble = ''You are helpful.'',
      llamacpp_kwargs = [(''model_path'', ''model.bin'')]\<rparr>"

text \<open>
  Stand-ins for the two library constructors: the model needs a \<^verbatim>\<open>model_path\<close>
  argument, and the chain needs a prompt whose input variables are the history and the
  input.
\<close>

definition fake_LlamaCpp_raises :: "LlamaCpp \<Rightarrow> string option" where
  "fake_LlamaCpp_raises l =
     (if map_of (kwargs l) ''model_path'' = None then Some ''model_path: field required''
      else None)"

definition fake_ConversationChain_raises :: "ConversationChain \<Rightarrow> string option" where
  "fake_ConversationChain_raises chain =
     (case chain_prompt chain of
        FormatHistoryPromptTemplate vars t \<Rightarrow>
          if set vars = {''history'', ''input''} then None
          else Some ''Got unexpected prompt input variables''
      | PromptTemplate vars t \<Rightarrow>
          if set vars = {''history'', ''input''} then None
          else Some ''Got unexpected prompt input variables''
      | ChatPromptTemplate msgs \<Rightarrow> None)"

text \<open>The agent and the store that \<open>init\<close> makes from this configuration.\<close>

definition fake_agent :: LlamacppAgent where
  "fake_agent =
     \<lparr>agent_config = fake_agent_config,
      prompt = FormatHistoryPromptTemplate [''history'', ''input''] ALPACA_TEMPLATE_WITH_HISTORY,
      callback_queue = 0,
      llm = \<lparr>callback_manager = [\<lparr>output_queue = 0\<rparr>],
             kwargs = [(''model_path'', ''model.bin'')]\<rparr>,
      memory = [SystemMessage ''You are helpful.''],
      thread_pool_executor = \<lparr>max_workers = 1\<rparr>,
      debug_log = []\<rparr>"

definition fake_store :: store where
  "fake_store = \<lparr>next_id = 1, queues = [0 \<mapsto> []]\<rparr>"

section \<open>Properties of the audio decode worker\<close>

lemma input_loop_body [simp]:
  "input_janus_queue (loop_body d c cfg item w) = input_janus_queue w"
  by (simp add: loop_body_def put_def log_exception_def
           split: prod.splits option.splits sum.splits)

lemma run_loop_Nil:
  "input_janus_queue w = [] \<Longrightarrow> run_loop d c cfg w = w"
  by (subst run_loop.simps) simp

lemma run_loop_Cons:
  "input_janus_queue w = item # rest \<Longrightarrow>
   run_loop d c cfg w =
     run_loop d c cfg (loop_body d c cfg item (w\<lparr>input_janus_queue := rest\<rparr>))"
  by (subst run_loop.simps) simp

lemma output_loop_body:
  "output_janus_queue (loop_body d c cfg item w) =
   output_janus_queue w @ output_janus_queue (loop_body d c cfg item (started []))"
  by (simp add: loop_body_def put_def log_exception_def started_def
           split: prod.splits option.splits sum.splits)

lemma output_run_loop:
  "input_janus_queue w = xs \<Longrightarrow>
   output_janus_queue (run_loop d c cfg w) =
   output_janus_queue w @ output_janus_queue (run_loop d c cfg (started xs))"
proof (induction xs arbitrary: w)
  case Nil
  then show ?case by (simp add: run_loop_Nil started_def)
next
  case (Cons item rest)
  let ?w1 = "loop_body d c cfg item (w\<lparr>input_janus_queue := rest\<rparr>)"
  let ?w2 = "loop_body d c cfg item (started rest)"
  have in1: "input_janus_queue ?w1 = rest" by simp
  have in2: "input_janus_queue ?w2 = rest" by (simp add: started_def)
  have o1: "output_janus_queue ?w1 =
            output_janus_queue w @ output_janus_queue (loop_body d c cfg item (started []))"
    by (subst output_loop_body) simp
  have o2: "output_janus_queue ?w2 = output_janus_queue (loop_body d c cfg item (started []))"
    by (subst output_loop_body) (simp add: started_def)
  have "run_loop d c cfg w = run_loop d c cfg ?w1"
    using Cons.prems by (rule run_loop_Cons)
  moreover have "run_loop d c cfg (started (item # rest)) = run_loop d c cfg ?w2"
    by (subst run_loop_Cons [where item = item and rest = rest]) (simp_all add: started_def)
  ultimately show ?case
    using Cons.IH [OF in1] Cons.IH [OF in2] o1 o2 by simp
qed

lemma outputs_Cons:
  "output_janus_queue (run_loop d c cfg (started (item # rest))) =
   output_janus_queue (loop_body d c cfg item (started [])) @
   output_janus_queue (run_loop d c cfg (started rest))"
proof -
  let ?w2 = "loop_body d c cfg item (started rest)"
  have "run_loop d c cfg (started (item # rest)) = run_loop d c cfg ?w2"
    by (subst run_loop_Cons [where item = item and rest = rest]) (simp_all add: started_def)
  moreover have "input_janus_queue ?w2 = rest" by (simp add: started_def)
  moreover have "output_janus_queue ?w2 = output_janus_queue (loop_body d c cfg item (started []))"
    by (subst output_loop_body) (simp add: started_def)
  ultimately show ?thesis using output_run_loop [of ?w2 rest d c cfg] by simp
qed

lemma outputs_Nil: "output_janus_queue (run_loop d c cfg (started [])) = []"
  by (simp add: run_loop_Nil started_def)

lemma outputs_append:
  "output_janus_queue (run_loop d c cfg (started (xs @ ys))) =
   output_janus_queue (run_loop d c cfg (started xs)) @
   output_janus_queue (run_loop d c cfg (started ys))"
  by (induction xs) (simp_all add: outputs_Nil outputs_Cons)

lemma output_absent:
  "output_janus_queue (loop_body d c cfg (None, is_last) (started [])) = [(None, True)]"
  by (simp add: loop_body_def put_def started_def)

lemma output_failed:
  "d chunk = Inl e \<Longrightarrow>
   output_janus_queue (loop_body d c cfg (Some chunk, is_last) (started [])) = [(None, True)]"
  by (simp add: loop_body_def put_def log_exception_def started_def)

lemma output_decoded:
  "d chunk = Inr pcm \<Longrightarrow>
   output_janus_queue (loop_body d c cfg (Some chunk, is_last) (started [])) =
   [(Some (c pcm (sampling_rate cfg) (audio_encoding cfg)), is_last)]"
  by (simp add: loop_body_def put_def started_def)

lemma outputs_all_decoded:
  "map (d \<circ> fst) chunks = map Inr pcms \<Longrightarrow>
   output_janus_queue
     (run_loop d c cfg (started (map (\<lambda>(b, is_last). (Some b, is_last)) chunks))) =
   map2 (\<lambda>pcm (b, is_last). (Some (c pcm (sampling_rate cfg) (audio_encoding cfg)), is_last))
     pcms chunks"
proof (induction chunks arbitrary: pcms)
  case Nil
  then show ?case by (simp add: outputs_Nil)
next
  case (Cons x chunks)
  obtain b l where x: "x = (b, l)" by (cases x)
  from Cons.prems obtain pcm rest where pcms: "pcms = pcm # rest"
    by (cases pcms) auto
  with Cons.prems x have hd: "d b = Inr pcm" and tl: "map (d \<circ> fst) chunks = map Inr rest"
    by (simp_all add: comp_def)
  show ?case
    using Cons.IH [OF tl] hd
    by (simp add: x pcms outputs_Cons output_decoded)
qed


lemma one_output_loop_body:
  "length (output_janus_queue (loop_body d c cfg item (started []))) = 1"
  by (simp add: loop_body_def put_def log_exception_def started_def
           split: prod.splits option.splits sum.splits)

lemma outputs_length:
  "length (output_janus_queue (run_loop d c cfg (started items))) = length items"
  by (induction items) (simp_all add: outputs_Nil outputs_Cons one_output_loop_body)

lemma not_absent_false_loop_body:
  "(None, False) \<notin> set (output_janus_queue (loop_body d c cfg item (started [])))"
  by (simp add: loop_body_def put_def log_exception_def started_def
           split: prod.splits option.splits sum.splits)

text \<open>
  C3. A stream of \<open>M\<close> chunks that all decode, followed by one absent chunk: the output
  queue holds exactly the \<open>M\<close> converted chunks, in input order, each the conversion of
  its own decoded chunk at the configured sample rate and encoding and each with the
  \<^verbatim>\<open>is_last\<close> flag of its input, and then the single terminal item \<open>(None, True)\<close>.
  The decoded buffers \<open>pcms\<close> are as many as the chunks, so the pairing drops none.
\<close>

theorem all_decoded_one_to_one:
  assumes "map (decode \<circ> fst) chunks = map Inr pcms"
  shows "output_janus_queue
           (run_loop decode convert cfg
              (started (map (\<lambda>(b, is_last). (Some b, is_last)) chunks @ [(None, end_flag)]))) =
         map2 (\<lambda>pcm (b, is_last).
                 (Some (convert pcm (sampling_rate cfg) (audio_encoding cfg)), is_last))
           pcms chunks @ [(None, True)]
       \<and> length pcms = length chunks"
proof
  show "output_janus_queue
           (run_loop decode convert cfg
              (started (map (\<lambda>(b, is_last). (Some b, is_last)) chunks @ [(None, end_flag)]))) =
         map2 (\<lambda>pcm (b, is_last).
                 (Some (convert pcm (sampling_rate cfg) (audio_encoding cfg)), is_last))
           pcms chunks @ [(None, True)]"
    using outputs_all_decoded [OF assms, of convert cfg]
    by (simp add: outputs_append outputs_Cons outputs_Nil output_absent)
  have "length (map (decode \<circ> fst) chunks) = length (map Inr pcms :: (string + bytes) list)"
    using assms by simp
  then show "length pcms = length chunks" by simp
qed

theorem all_decoded_one_to_one_witness:
  "map (fake_decode_mp3 \<circ> fst) [([0xFF, 1, 2], False), ([0xFF, 3], True)] =
     map Inr [[1, 2], [3]]
   \<and> output_janus_queue
        (run_loop fake_decode_mp3 fake_convert_wav fake_config
           (started [(Some [0xFF, 1, 2], False), (Some [0xFF, 3], True), (None, False)])) =
      [(Some [64, 1, 2], False), (Some [64, 3], True), (None, True)]"
proof -
  have h: "map (fake_decode_mp3 \<circ> fst) [([0xFF, 1, 2], False), ([0xFF, 3], True)] =
           map Inr [[1, 2], [3]]"
    by (simp add: fake_decode_mp3_def)
  show ?thesis
    using h all_decoded_one_to_one [OF h, of fake_convert_wav fake_config False]
    by (simp add: fake_convert_wav_def fake_config_def)
qed

text \<open>
  A stream of three chunks whose second chunk fails to decode. The terminal item is
  written in the second place, and the worker goes on to decode and write the third chunk
  after it: the output does not end at the terminal item, and the chunk after the failed
  one is processed.
\<close>

theorem failed_chunk_counterexample:
  "fake_decode_mp3 [0, 1] = Inl ''bad sync''
   \<and> output_janus_queue
        (run_loop fake_decode_mp3 fake_convert_wav fake_config
           (started [(Some [0xFF, 1, 2], False), (Some [0, 1], False), (Some [0xFF, 3], True)])) =
      [(Some [64, 1, 2], False), (None, True), (Some [64, 3], True)]"
  by (simp add: run_loop_Cons run_loop_Nil loop_body_def put_def log_exception_def started_def
        fake_decode_mp3_def fake_convert_wav_def fake_config_def)

text \<open>
  C2, as the loop behaves. When the chunks before chunk \<open>k\<close> decode and chunk \<open>k\<close>
  fails, the output queue holds the \<open>k - 1\<close> converted chunks and, immediately after
  them, one terminal item \<open>(None, True)\<close> in the place of chunk \<open>k\<close>. The worker then
  carries on with the items after chunk \<open>k\<close> exactly as it would from a fresh start and
  writes one output item for each of them, so what they produce follows the terminal item.
\<close>

theorem failed_chunk_marker_then_rest:
  assumes "map (decode \<circ> fst) before = map Inr pcms"
    and "decode chunk = Inl e"
  shows "output_janus_queue
           (run_loop decode convert cfg
              (started (map (\<lambda>(b, is_last). (Some b, is_last)) before
                        @ (Some chunk, flag) # after))) =
         map2 (\<lambda>pcm (b, is_last).
                 (Some (convert pcm (sampling_rate cfg) (audio_encoding cfg)), is_last))
           pcms before
         @ (None, True)
         # output_janus_queue (run_loop decode convert cfg (started after))
       \<and> length (output_janus_queue (run_loop decode convert cfg (started after))) =
           length after
       \<and> length pcms = length before"
proof (intro conjI)
  show "output_janus_queue
           (run_loop decode convert cfg
              (started (map (\<lambda>(b, is_last). (Some b, is_last)) before
                        @ (Some chunk, flag) # after))) =
         map2 (\<lambda>pcm (b, is_last).
                 (Some (convert pcm (sampling_rate cfg) (audio_encoding cfg)), is_last))
           pcms before
         @ (None, True)
         # output_janus_queue (run_loop decode convert cfg (started after))"
    using outputs_all_decoded [OF assms(1), of convert cfg] assms(2)
    by (simp add: outputs_append outputs_Cons output_failed)
  show "length (output_janus_queue (run_loop decode convert cfg (started after))) =
        length after"
    by (rule outputs_length)
  have "length (map (decode \<circ> fst) before) = length (map Inr pcms :: (string + bytes) list)"
    using assms(1) by simp
  then show "length pcms = length before" by simp
qed

theorem failed_chunk_marker_then_rest_witness:
  "map (fake_decode_mp3 \<circ> fst) [([0xFF, 1, 2], False)] = map Inr [[1, 2]]
   \<and> fake_decode_mp3 [0, 1] = Inl ''bad sync''
   \<and> output_janus_queue
        (run_loop fake_decode_mp3 fake_convert_wav fake_config
           (started [(Some [0xFF, 1, 2], False), (Some [0, 1], False), (Some [0xFF, 3], True)])) =
      (Some [64, 1, 2], False) # (None, True) #
      output_janus_queue
        (run_loop fake_decode_mp3 fake_convert_wav fake_config (started [(Some [0xFF, 3], True)]))
   \<and> length (output_janus_queue
        (run_loop fake_decode_mp3 fake_convert_wav fake_config
           (started [(Some [0xFF, 3], True)]))) = 1"
proof -
  have h1: "map (fake_decode_mp3 \<circ> fst) [([0xFF, 1, 2], False)] = map Inr [[1, 2]]"
    by (simp add: fake_decode_mp3_def)
  have h2: "fake_decode_mp3 [0, 1] = Inl ''bad sync''"
    by (simp add: fake_decode_mp3_def)
  show ?thesis
    using h1 h2
      failed_chunk_marker_then_rest [OF h1 h2, of fake_convert_wav fake_config False
        "[(Some [0xFF, 3], True)]"]
    by (simp add: fake_convert_wav_def fake_config_def)
qed

text \<open>
  C6. An item whose chunk is absent: the pass writes \<open>(None, True)\<close> whatever the item's
  own flag, and the loop goes on with the items that remain instead of ending. So one
  worker serves a first stream, writes its terminal item and serves a second stream.
\<close>

theorem absent_chunk_forwarded:
  "loop_body decode convert cfg (None, is_last) w = put w (None, True)
   \<and> run_loop decode convert cfg (w\<lparr>input_janus_queue := (None, is_last) # rest\<rparr>) =
     run_loop decode convert cfg (put (w\<lparr>input_janus_queue := rest\<rparr>) (None, True))
   \<and> output_janus_queue
       (run_loop decode convert cfg (started (first @ (None, is_last) # second))) =
     output_janus_queue (run_loop decode convert cfg (started first))
     @ (None, True)
     # output_janus_queue (run_loop decode convert cfg (started second))"
proof (intro conjI)
  show body: "loop_body decode convert cfg (None, is_last) w = put w (None, True)" for w
    by (simp add: loop_body_def)
  show "run_loop decode convert cfg (w\<lparr>input_janus_queue := (None, is_last) # rest\<rparr>) =
        run_loop decode convert cfg (put (w\<lparr>input_janus_queue := rest\<rparr>) (None, True))"
    by (subst run_loop_Cons [where item = "(None, is_last)" and rest = rest])
       (simp_all add: body)
  show "output_janus_queue
          (run_loop decode convert cfg (started (first @ (None, is_last) # second))) =
        output_janus_queue (run_loop decode convert cfg (started first))
        @ (None, True)
        # output_janus_queue (run_loop decode convert cfg (started second))"
    by (simp add: outputs_append outputs_Cons output_absent)
qed

text \<open>
  C7. A chunk whose decode raises \<^verbatim>\<open>DecodeError\<close>: the pass logs the failure, writes
  \<open>(None, True)\<close> and gives back a worker state, and the loop goes on with the items that
  remain; no exception leaves the pass and the worker's state is the one it had, extended.
\<close>

theorem decode_failure_recovered:
  assumes "decode chunk = Inl e"
  shows "loop_body decode convert cfg (Some chunk, is_last) w =
           put (log_exception w (''MiniaudioWorker error: '' @ e)) (None, True)
       \<and> run_loop decode convert cfg
           (w\<lparr>input_janus_queue := (Some chunk, is_last) # rest\<rparr>) =
         run_loop decode convert cfg
           (put (log_exception (w\<lparr>input_janus_queue := rest\<rparr>)
                   (''MiniaudioWorker error: '' @ e)) (None, True))"
proof
  show body: "loop_body decode convert cfg (Some chunk, is_last) w =
           put (log_exception w (''MiniaudioWorker error: '' @ e)) (None, True)" for w
    using assms by (simp add: loop_body_def)
  show "run_loop decode convert cfg
           (w\<lparr>input_janus_queue := (Some chunk, is_last) # rest\<rparr>) =
         run_loop decode convert cfg
           (put (log_exception (w\<lparr>input_janus_queue := rest\<rparr>)
                   (''MiniaudioWorker error: '' @ e)) (None, True))"
    by (subst run_loop_Cons [where item = "(Some chunk, is_last)" and rest = rest])
       (simp_all add: body)
qed

theorem decode_failure_recovered_witness:
  "fake_decode_mp3 [0, 1] = Inl ''bad sync''
   \<and> loop_body fake_decode_mp3 fake_convert_wav fake_config (Some [0, 1], False) (started []) =
       \<lparr>input_janus_queue = [], output_janus_queue = [(None, True)],
        logged = [''MiniaudioWorker error: bad sync'']\<rparr>
   \<and> run_loop fake_decode_mp3 fake_convert_wav fake_config
        (started [(Some [0, 1], False), (Some [0xFF, 3], True)]) =
       \<lparr>input_janus_queue = [],
        output_janus_queue = [(None, True), (Some [64, 3], True)],
        logged = [''MiniaudioWorker error: bad sync'']\<rparr>"
proof -
  have h: "fake_decode_mp3 [0, 1] = Inl ''bad sync''"
    by (simp add: fake_decode_mp3_def)
  have r: "run_loop fake_decode_mp3 fake_convert_wav fake_config
             \<lparr>input_janus_queue = [(Some [0xFF, 3], True)],
              output_janus_queue = [(None, True)],
              logged = [''MiniaudioWorker error: bad sync'']\<rparr> =
           \<lparr>input_janus_queue = [],
            output_janus_queue = [(None, True), (Some [64, 3], True)],
            logged = [''MiniaudioWorker error: bad sync'']\<rparr>"
    by (simp add: run_loop_Cons run_loop_Nil loop_body_def put_def
          fake_decode_mp3_def fake_convert_wav_def fake_config_def)
  show ?thesis
    using h r
      decode_failure_recovered [where decode = fake_decode_mp3 and chunk = "[0, 1]"
        and e = "''bad sync''" and convert = fake_convert_wav and cfg = fake_config
        and is_last = False and w = "started []" and rest = "[(Some [0xFF, 3], True)]"]
    by (simp add: started_def put_def log_exception_def)
qed

text \<open>
  C10. Whatever the input items, their flags and the outcome of each decode, the worker
  never writes \<open>(None, False)\<close>: every written item whose chunk is absent carries
  \<open>True\<close>.
\<close>

theorem absent_output_flag_true:
  "(None, False) \<notin>
     set (output_janus_queue (run_loop decode convert cfg (started items)))"
  by (induction items) (simp_all add: outputs_Nil outputs_Cons not_absent_false_loop_body)

section \<open>Properties of the agent\<close>

lemma init_fake:
  "init fake_LlamaCpp_raises fake_ConversationChain_raises fake_agent_config empty_store =
     Inr (fake_agent, fake_store)"
  by (simp add: init_def fake_agent_config_def empty_store_def Queue_def fake_agent_def
        fake_store_def fake_LlamaCpp_raises_def fake_ConversationChain_raises_def)

lemma next_id_put_nowait [simp]: "next_id (put_nowait st q x) = next_id st"
  by (simp add: put_nowait_def)

lemma next_id_fold_token [simp]:
  "next_id (fold (\<lambda>h s. on_llm_new_token h tok s) hs st) = next_id st"
  by (induction hs arbitrary: st) (simp_all add: on_llm_new_token_def)

lemma next_id_fold_end [simp]:
  "next_id (fold (\<lambda>h s. on_llm_end h res s) hs st) = next_id st"
  by (induction hs arbitrary: st) (simp_all add: on_llm_end_def)

lemma next_id_fire [simp]: "next_id (fire hs st ev) = next_id st"
  by (cases ev) simp_all

lemma next_id_foldl_fire [simp]: "next_id (foldl (fire hs) st evs) = next_id st"
  by (induction evs arbitrary: st) simp_all


text \<open>
  The configuration with the template \<^verbatim>\<open>"alpaca"\<close> whose keyword arguments for the
  model name \<^verbatim>\<open>callback_manager\<close>: the template check passes, and construction
  fails at the call that makes the model, with a \<^verbatim>\<open>TypeError\<close>. So construction does
  not succeed for every configuration whose template is \<^verbatim>\<open>"alpaca"\<close>.
\<close>

theorem alpaca_construction_counterexample:
  "prompt_template
     (fake_agent_config\<lparr>llamacpp_kwargs := [(''callback_manager'', ''mine'')]\<rparr>) =
     StrV ''alpaca''
   \<and> init fake_LlamaCpp_raises fake_ConversationChain_raises
        (fake_agent_config\<lparr>llamacpp_kwargs := [(''callback_manager'', ''mine'')]\<rparr>)
        empty_store =
      Inl (TypeError ''callback_manager'')"
  by (simp add: init_def fake_agent_config_def Queue_def)

text \<open>
  C5, as the constructor behaves. When the configured template is a string other than
  \<^verbatim>\<open>"alpaca"\<close>, construction gives the \<^verbatim>\<open>ValueError\<close> and no agent, whatever the
  rest of the configuration and the library do, so nothing is left to fail at call time.
  When it is \<^verbatim>\<open>"alpaca"\<close>, the template check passes: construction gives the agent
  whose prompt is the history-flattening template over the instruction layout, provided
  the keyword arguments do not name \<^verbatim>\<open>callback_manager\<close> and neither library
  constructor raises. When the template is \<^verbatim>\<open>"alpaca"\<close> or is not a string,
  construction never gives that \<^verbatim>\<open>ValueError\<close>.
\<close>

theorem prompt_template_checked_in_init:
  "(prompt_template cfg = StrV s \<and> s \<noteq> ''alpaca'' \<longrightarrow>
      init llm_raises chain_raises cfg st =
        Inl (ValueError (''Unknown prompt template '' @ s)))
   \<and> (prompt_template cfg = StrV ''alpaca'' \<and>
       map_of (llamacpp_kwargs cfg) ''callback_manager'' = None \<and>
       llm_raises \<lparr>callback_manager = [\<lparr>output_queue = next_id st\<rparr>],
                   kwargs = llamacpp_kwargs cfg\<rparr> = None \<and>
       chain_raises
         \<lparr>chain_memory = [SystemMessage (prompt_preamble cfg)],
          chain_prompt =
            FormatHistoryPromptTemplate [''history'', ''input''] ALPACA_TEMPLATE_WITH_HISTORY,
          chain_llm = \<lparr>callback_manager = [\<lparr>output_queue = next_id st\<rparr>],
                       kwargs = llamacpp_kwargs cfg\<rparr>\<rparr> = None \<longrightarrow>
       (\<exists>self st'. init llm_raises chain_raises cfg st = Inr (self, st') \<and>
          prompt self =
            FormatHistoryPromptTemplate [''history'', ''input'']
              ALPACA_TEMPLATE_WITH_HISTORY))
   \<and> (prompt_template cfg = StrV ''alpaca'' \<and>
       init llm_raises chain_raises cfg st = Inr (agent, st0) \<longrightarrow>
       prompt agent =
         FormatHistoryPromptTemplate [''history'', ''input''] ALPACA_TEMPLATE_WITH_HISTORY)
   \<and> ((prompt_template cfg = StrV ''alpaca'' \<or> (\<forall>t. prompt_template cfg \<noteq> StrV t)) \<longrightarrow>
       init llm_raises chain_raises cfg st \<noteq> Inl (ValueError msg))"
proof (intro conjI impI)
  assume "prompt_template cfg = StrV s \<and> s \<noteq> ''alpaca''"
  then show "init llm_raises chain_raises cfg st =
               Inl (ValueError (''Unknown prompt template '' @ s))"
    by (simp add: init_def)
next
  assume "prompt_template cfg = StrV ''alpaca'' \<and>
       map_of (llamacpp_kwargs cfg) ''callback_manager'' = None \<and>
       llm_raises \<lparr>callback_manager = [\<lparr>output_queue = next_id st\<rparr>],
                   kwargs = llamacpp_kwargs cfg\<rparr> = None \<and>
       chain_raises
         \<lparr>chain_memory = [SystemMessage (prompt_preamble cfg)],
          chain_prompt =
            FormatHistoryPromptTemplate [''history'', ''input''] ALPACA_TEMPLATE_WITH_HISTORY,
          chain_llm = \<lparr>callback_manager = [\<lparr>output_queue = next_id st\<rparr>],
                       kwargs = llamacpp_kwargs cfg\<rparr>\<rparr> = None"
  then show "\<exists>self st'. init llm_raises chain_raises cfg st = Inr (self, st') \<and>
          prompt self =
            FormatHistoryPromptTemplate [''history'', ''input''] ALPACA_TEMPLATE_WITH_HISTORY"
    by (simp add: init_def Queue_def)
next
  assume "prompt_template cfg = StrV ''alpaca'' \<and>
       init llm_raises chain_raises cfg st = Inr (agent, st0)"
  then show "prompt agent =
         FormatHistoryPromptTemplate [''history'', ''input''] ALPACA_TEMPLATE_WITH_HISTORY"
    by (auto simp: init_def Queue_def split: if_splits option.splits)
next
  assume "prompt_template cfg = StrV ''alpaca'' \<or> (\<forall>t. prompt_template cfg \<noteq> StrV t)"
  then show "init llm_raises chain_raises cfg st \<noteq> Inl (ValueError msg)"
    by (cases "prompt_template cfg")
       (auto simp: init_def Queue_def split: if_splits option.splits)
qed

theorem prompt_template_checked_in_init_witness:
  "init fake_LlamaCpp_raises fake_ConversationChain_raises
     (fake_agent_config\<lparr>prompt_template := StrV ''unknown''\<rparr>) empty_store =
     Inl (ValueError ''Unknown prompt template unknown'')
   \<and> (\<exists>self st'.
        init fake_LlamaCpp_raises fake_ConversationChain_raises fake_agent_config empty_store =
          Inr (self, st') \<and>
        prompt self =
          FormatHistoryPromptTemplate [''history'', ''input''] ALPACA_TEMPLATE_WITH_HISTORY)
   \<and> prompt fake_agent =
       FormatHistoryPromptTemplate [''history'', ''input''] ALPACA_TEMPLATE_WITH_HISTORY
   \<and> init fake_LlamaCpp_raises fake_ConversationChain_raises
        (fake_agent_config\<lparr>prompt_template := NoneV\<rparr>) empty_store \<noteq>
      Inl (ValueError ''Unknown prompt template unknown'')"
  using init_fake
    prompt_template_checked_in_init
      [where cfg = "fake_agent_config\<lparr>prompt_template := StrV ''unknown''\<rparr>"
         and s = "''unknown''" and st = empty_store
         and llm_raises = fake_LlamaCpp_raises
         and chain_raises = fake_ConversationChain_raises
         and agent = fake_agent and st0 = fake_store
         and msg = "''Unknown prompt template unknown''"]
    prompt_template_checked_in_init
      [where cfg = fake_agent_config and s = "''unknown''" and st = empty_store
         and llm_raises = fake_LlamaCpp_raises
         and chain_raises = fake_ConversationChain_raises
         and agent = fake_agent and st0 = fake_store
         and msg = "''Unknown prompt template unknown''"]
    prompt_template_checked_in_init
      [where cfg = "fake_agent_config\<lparr>prompt_template := NoneV\<rparr>"
         and s = "''unknown''" and st = empty_store
         and llm_raises = fake_LlamaCpp_raises
         and chain_raises = fake_ConversationChain_raises
         and agent = fake_agent and st0 = fake_store
         and msg = "''Unknown prompt template unknown''"]
  by (simp add: fake_agent_config_def empty_store_def fake_LlamaCpp_raises_def
        fake_ConversationChain_raises_def)

text \<open>
  C9. When the blocking \<^verbatim>\<open>predict\<close> call returns a text, \<^verbatim>\<open>respond\<close> returns the
  pair of exactly that text and \<open>False\<close>; and whatever pair \<^verbatim>\<open>respond\<close> returns, its
  flag is \<open>False\<close> and its text is what \<^verbatim>\<open>predict\<close> returned.
\<close>

theorem respond_returns_text_and_false:
  "(outcome (predict (conversation self) human_input) = Inr reply \<longrightarrow>
      fst (respond predict self st human_input) = Inr (reply, False))
   \<and> (fst (respond predict self st human_input) = Inr (t, should_interrupt) \<longrightarrow>
        should_interrupt = False \<and> outcome (predict (conversation self) human_input) = Inr t)"
  by (cases "outcome (predict (conversation self) human_input)")
     (simp_all add: respond_def run_in_executor_def Let_def)

theorem respond_returns_text_and_false_witness:
  "outcome (fake_predict (conversation fake_agent) ''Hi'') = Inr ''Hello''
   \<and> fst (respond fake_predict fake_agent fake_store ''Hi'') = Inr (''Hello'', False)"
proof -
  have h: "outcome (fake_predict (conversation fake_agent) ''Hi'') = Inr ''Hello''"
    by (simp add: fake_predict_def)
  show ?thesis
    using h respond_returns_text_and_false
      [where predict = fake_predict and self = fake_agent and human_input = "''Hi''"
         and reply = "''Hello''" and st = fake_store and t = "''Hello''"
         and should_interrupt = False]
    by simp
qed




text \<open>
  The agent that the constructor makes, and two \<^verbatim>\<open>generate_response\<close> calls on it one
  after the other. The queue the first call reads is the agent's queue, which was in the
  store before the call; the second call reads the same queue; and the call has made no
  queue.
\<close>

theorem generate_response_channel_counterexample:
  "init fake_LlamaCpp_raises fake_ConversationChain_raises fake_agent_config empty_store =
     Inr (fake_agent, fake_store)
   \<and> queues fake_store (callback_queue fake_agent) = Some []
   \<and> channel (fst (generate_response fake_predict fake_agent fake_store ''Hi'')) =
       callback_queue fake_agent
   \<and> channel (fst (generate_response fake_predict
         (fst (snd (generate_response fake_predict fake_agent fake_store ''Hi'')))
         (snd (snd (generate_response fake_predict fake_agent fake_store ''Hi'')))
         ''Again'')) =
       channel (fst (generate_response fake_predict fake_agent fake_store ''Hi''))
   \<and> next_id (snd (snd (generate_response fake_predict fake_agent fake_store ''Hi''))) =
       next_id fake_store"
  using init_fake
  by (simp add: generate_response_def run_in_executor_def Let_def split: prod.splits)
     (simp add: fake_store_def fake_agent_def)

text \<open>
  C1, as the agent behaves. A \<^verbatim>\<open>generate_response\<close> call makes no queue and no
  handler: its stream reads the agent's one \<^verbatim>\<open>callback_queue\<close>, and the call leaves
  that attribute, the model with its handler and the number of queues as they were. The
  queue is made once, by the constructor, as a new object, together with the one handler
  that writes to it. So all calls on one agent read the same queue.
\<close>

theorem generate_response_reads_agent_queue:
  "channel (fst (generate_response predict self st human_input)) = callback_queue self
   \<and> callback_queue (fst (snd (generate_response predict self st human_input))) =
       callback_queue self
   \<and> llm (fst (snd (generate_response predict self st human_input))) = llm self
   \<and> next_id (snd (snd (generate_response predict self st human_input))) = next_id st
   \<and> (init llm_raises chain_raises cfg st = Inr (agent, st0) \<longrightarrow>
        callback_queue agent = next_id st \<and> next_id st0 = Suc (next_id st) \<and>
        queues st0 (callback_queue agent) = Some [] \<and>
        callback_manager (llm agent) = [\<lparr>output_queue = callback_queue agent\<rparr>])"
proof -
  have made: "init llm_raises chain_raises cfg st = Inr (agent, st0) \<longrightarrow>
        callback_queue agent = next_id st \<and> next_id st0 = Suc (next_id st) \<and>
        queues st0 (callback_queue agent) = Some [] \<and>
        callback_manager (llm agent) = [\<lparr>output_queue = callback_queue agent\<rparr>]"
    by (cases "prompt_template cfg")
       (auto simp: init_def Queue_def split: if_splits option.splits)
  have read: "channel (fst (generate_response predict self st human_input)) = callback_queue self
      \<and> callback_queue (fst (snd (generate_response predict self st human_input))) =
          callback_queue self
      \<and> llm (fst (snd (generate_response predict self st human_input))) = llm self
      \<and> next_id (snd (snd (generate_response predict self st human_input))) = next_id st"
    by (simp add: generate_response_def run_in_executor_def Let_def split: prod.splits)
  from read made show ?thesis by blast
qed

theorem generate_response_reads_agent_queue_witness:
  "init fake_LlamaCpp_raises fake_ConversationChain_raises fake_agent_config empty_store =
     Inr (fake_agent, fake_store)
   \<and> callback_queue fake_agent = 0 \<and> next_id fake_store = 1
   \<and> channel (fst (generate_response fake_predict fake_agent fake_store ''Hi'')) = 0
   \<and> next_id (snd (snd (generate_response fake_predict fake_agent fake_store ''Hi''))) = 1"
  using init_fake
    generate_response_reads_agent_queue
      [where predict = fake_predict and self = fake_agent and st = fake_store
         and human_input = "''Hi''" and cfg = fake_agent_config and agent = fake_agent
         and st0 = fake_store and llm_raises = fake_LlamaCpp_raises
         and chain_raises = fake_ConversationChain_raises]
    generate_response_reads_agent_queue
      [where predict = fake_predict and self = fake_agent and st = empty_store
         and human_input = "''Hi''" and cfg = fake_agent_config and agent = fake_agent
         and st0 = fake_store and llm_raises = fake_LlamaCpp_raises
         and chain_raises = fake_ConversationChain_raises]
  by (simp add: fake_agent_def fake_store_def empty_store_def)

text \<open>
  C4. A backend that fails inside \<^verbatim>\<open>predict\<close> after its first token. \<^verbatim>\<open>respond\<close>
  awaits the future and hands the failure to its caller, and the next \<^verbatim>\<open>respond\<close> on
  the same agent is served as usual. \<^verbatim>\<open>generate_response\<close> has
  dropped the future: its caller gets the token written before the failure and is then
  left waiting on the queue, and the failure reaches nobody.
\<close>

theorem backend_failure_in_generate_response:
  "init fake_LlamaCpp_raises fake_ConversationChain_raises fake_agent_config empty_store =
     Inr (fake_agent, fake_store)
   \<and> fst (respond failing_predict fake_agent fake_store ''Hi'') =
     Inl (BackendFailure ''llama_decode failed'')
   \<and> fst (respond fake_predict
         (fst (snd (respond failing_predict fake_agent fake_store ''Hi'')))
         (snd (snd (respond failing_predict fake_agent fake_store ''Hi'')))
         ''Hi'') =
       Inr (''Hello'', False)
   \<and> fst (generate_response failing_predict fake_agent fake_store ''Hi'') =
       \<lparr>channel = 0, yielded = [''Hel''], ending = Awaiting\<rparr>"
  using init_fake
  by (simp add: respond_def generate_response_def run_in_executor_def failing_predict_def
        fake_predict_def
        fake_agent_def fake_store_def conversation_def on_llm_new_token_def put_nowait_def
        items_of_def stream_response_async_def List.map_filter_simps)

end
